theory Spec2Isabelle
  imports Main "HOL-Library.Sublist"
begin

section \<open>Place-name resolution of App.jsx\<close>

text \<open>
  A shallow embedding of the location functions of \<^verbatim>\<open>src/App.jsx\<close>:
  \<^verbatim>\<open>findMatchingProvince\<close>, \<^verbatim>\<open>findMatchingCity\<close>, \<^verbatim>\<open>fetchCities\<close>, \<^verbatim>\<open>setLocation\<close>,
  \<^verbatim>\<open>setDefaultLocation\<close> and the body of \<^verbatim>\<open>reverseGeocode\<close> that runs on the address
  record. Console output is not modelled.

  A JavaScript string is a sequence of UTF-16 code units and \<^typ>\<open>char\<close> has 256
  values, so a \<^typ>\<open>string\<close> stands for a JavaScript string all of whose code units
  are below 256 (ISO Latin-1, which covers the names of the Indonesian provinces and
  regencies).
\<close>

subsection \<open>JavaScript values\<close>

text \<open>
  The values that reach the functions: a string, \<^verbatim>\<open>null\<close> or \<^verbatim>\<open>undefined\<close> (a field
  the geocoder left out, the result of a \<^verbatim>\<open>find\<close> that found nothing).
\<close>

datatype jsval = Undefined | Null | Str string

text \<open>\<^verbatim>\<open>if (v)\<close>, \<^verbatim>\<open>!v\<close>, \<^verbatim>\<open>a || b\<close>, \<^verbatim>\<open>filter(Boolean)\<close>: only a non-empty string is truthy.\<close>

fun truthy :: "jsval \<Rightarrow> bool" where
  "truthy (Str s) = (s \<noteq> [])"
| "truthy Undefined = False"
| "truthy Null = False"

text \<open>\<^verbatim>\<open>a || b\<close>\<close>

definition js_or :: "jsval \<Rightarrow> jsval \<Rightarrow> jsval" where
  "js_or a b = (if truthy a then a else b)"

text \<open>
  A method call on \<^verbatim>\<open>null\<close> or \<^verbatim>\<open>undefined\<close> (\<^verbatim>\<open>name.toLowerCase()\<close>,
  \<^verbatim>\<open>citiesList.find(...)\<close>) throws a TypeError; the functions return \<open>Inl\<close> of it.
\<close>

datatype error = TypeError

text \<open>\<^verbatim>\<open>Array.prototype.find\<close>: the first element that satisfies the predicate, else \<^verbatim>\<open>undefined\<close>.\<close>

definition js_find :: "(string \<Rightarrow> bool) \<Rightarrow> string list \<Rightarrow> jsval" where
  "js_find P xs = (case find P xs of None \<Rightarrow> Undefined | Some x \<Rightarrow> Str x)"

subsection \<open>String primitives\<close>

text \<open>
  The characters matched by \<^verbatim>\<open>\s\<close> and removed by \<^verbatim>\<open>trim()\<close> (WhiteSpace and
  LineTerminator of ECMAScript) below 256: TAB, LF, VT, FF, CR, SPACE, NBSP.
\<close>

definition isWhiteSpace :: "char \<Rightarrow> bool" where
  "isWhiteSpace c \<longleftrightarrow>
     c \<in> set [CHR 0x09, CHR 0x0A, CHR 0x0B, CHR 0x0C, CHR 0x0D, CHR 0x20, CHR 0xA0]"

text \<open>
  \<^verbatim>\<open>toLowerCase()\<close> on a code unit below 256: \<^verbatim>\<open>A\<close>-\<^verbatim>\<open>Z\<close> and the Latin-1 capitals
  0xC0-0xDE (without the multiplication sign 0xD7) move up by 32; nothing else changes.
\<close>

definition toLowerChar :: "char \<Rightarrow> char" where
  "toLowerChar c =
     (let n = (of_char c :: nat)
      in if (65 \<le> n \<and> n \<le> 90) \<or> (192 \<le> n \<and> n \<le> 222 \<and> n \<noteq> 215)
         then char_of (n + 32) else c)"

definition toLowerCase :: "string \<Rightarrow> string" where
  "toLowerCase s = map toLowerChar s"

text \<open>\<^verbatim>\<open>trim()\<close>\<close>

definition trim :: "string \<Rightarrow> string" where
  "trim s = rev (dropWhile isWhiteSpace (rev (dropWhile isWhiteSpace s)))"

text \<open>\<^verbatim>\<open>s.includes(t)\<close>: \<open>t\<close> occurs in \<open>s\<close> as a contiguous run.\<close>

definition js_includes :: "string \<Rightarrow> string \<Rightarrow> bool" where
  "js_includes s t \<longleftrightarrow> sublist t s"

subsection \<open>The regular expressions\<close>

text \<open>
  Every pattern of the source is applied with \<^verbatim>\<open>replace\<close> and no \<^verbatim>\<open>g\<close> flag, to a
  string that \<^verbatim>\<open>toLowerCase()\<close> produced, so the \<^verbatim>\<open>i\<close> flag changes nothing: the
  tokens are compared as they are written.

  \<^verbatim>\<open>(t1|t2|...)\s*\<close> at the head of a string: the alternatives are tried in the order
  written, the first one that is a prefix is taken (the greedy \<^verbatim>\<open>\s*\<close> that follows
  cannot fail, so no later alternative is tried), then all white space after it.
  The result is what is left after the match, or \<open>None\<close> when no alternative is a prefix.
\<close>

fun matchToken :: "string list \<Rightarrow> string \<Rightarrow> string option" where
  "matchToken [] s = None"
| "matchToken (t # ts) s =
     (if prefix t s then Some (dropWhile isWhiteSpace (drop (length t) s))
      else matchToken ts s)"

text \<open>\<^verbatim>\<open>s.replace(/^(t1|t2|...)\s*/i, '')\<close>\<close>

definition replaceLeading :: "string list \<Rightarrow> string \<Rightarrow> string" where
  "replaceLeading ts s = (case matchToken ts s of None \<Rightarrow> s | Some r \<Rightarrow> r)"

text \<open>
  \<^verbatim>\<open>s.replace(/\s+(t1|t2|...)\s*/i, ' ')\<close>: the leftmost match is replaced. A match
  starts at a white-space character; the greedy \<^verbatim>\<open>\s+\<close> takes the whole run of
  white space from there (giving characters back cannot help, no token starts with
  white space), then a token and the white space after it. Where that fails the scan
  moves one character on.
\<close>

fun replaceEmbedded :: "string list \<Rightarrow> string \<Rightarrow> string" where
  "replaceEmbedded ts [] = []"
| "replaceEmbedded ts (c # cs) =
     (if isWhiteSpace c then
        (case matchToken ts (dropWhile isWhiteSpace cs) of
           Some r \<Rightarrow> CHR 0x20 # r
         | None \<Rightarrow> c # replaceEmbedded ts cs)
      else c # replaceEmbedded ts cs)"

text \<open>\<^verbatim>\<open>s.replace(/^kab\.?\s*/i, '')\<close>: \<^verbatim>\<open>kab\<close>, a period if there is one, white space.\<close>

definition replaceKab :: "string \<Rightarrow> string" where
  "replaceKab s =
     (if prefix ''kab'' s then
        (let r = drop 3 s
         in dropWhile isWhiteSpace (if prefix ''.'' r then drop 1 r else r))
      else s)"

subsection \<open>Token lists, as written in the source\<close>

definition provinceNameLeading :: "string list" where
  "provinceNameLeading = [''provinsi'', ''prov'', ''daerah'', ''istimewa'', ''khusus'']"

definition provinceNameEmbedded :: "string list" where
  "provinceNameEmbedded = [''daerah'', ''istimewa'', ''khusus'']"

text \<open>The exact-match pattern of the province list writes \<^verbatim>\<open>d\.i\.\<close> twice, the partial one once.\<close>

definition provinceEntryLeadingExact :: "string list" where
  "provinceEntryLeadingExact =
     [''provinsi'', ''prov'', ''d.i.'', ''d.i.'', ''daerah'', ''istimewa'']"

definition provinceEntryLeadingPartial :: "string list" where
  "provinceEntryLeadingPartial = [''provinsi'', ''prov'', ''d.i.'', ''daerah'', ''istimewa'']"

definition cityNameLeading :: "string list" where
  "cityNameLeading =
     [''kabupaten'', ''kabupaten'', ''kab'', ''kota'', ''city'', ''daerah'', ''khusus'',
      ''district'', ''regency'', ''municipality'']"

definition cityNameEmbedded :: "string list" where
  "cityNameEmbedded = [''kabupaten'', ''kab'', ''kota'', ''city'', ''daerah'', ''khusus'']"

subsection \<open>findMatchingProvince\<close>

text \<open>
  \<^verbatim>\<open>name.toLowerCase()
     .replace(/^(provinsi|prov|daerah|istimewa|khusus)\s*/i, '')
     .replace(/\s+(daerah|istimewa|khusus)\s*/i, ' ')
     .trim()\<close>
\<close>

definition normalizeProvince :: "string \<Rightarrow> string" where
  "normalizeProvince name =
     trim (replaceEmbedded provinceNameEmbedded
             (replaceLeading provinceNameLeading (toLowerCase name)))"

text \<open>
  \<^verbatim>\<open>p.toLowerCase().replace(/^(provinsi|prov|d\.i\.|d\.i\.|daerah|istimewa)\s*/i, '').trim()\<close>
  in the exact match, and the same with one \<^verbatim>\<open>d\.i\.\<close> in the partial match.
\<close>

definition provinceNameExact :: "string \<Rightarrow> string" where
  "provinceNameExact p = trim (replaceLeading provinceEntryLeadingExact (toLowerCase p))"

definition provinceNamePartial :: "string \<Rightarrow> string" where
  "provinceNamePartial p = trim (replaceLeading provinceEntryLeadingPartial (toLowerCase p))"

text \<open>The two searches of \<^verbatim>\<open>findMatchingProvince\<close>, on the normalized name.\<close>

definition provinceExactMatch :: "string \<Rightarrow> string list \<Rightarrow> jsval" where
  "provinceExactMatch normalizedName provinces =
     js_find (\<lambda>p. provinceNameExact p = normalizedName) provinces"

definition provincePartialMatch :: "string \<Rightarrow> string list \<Rightarrow> jsval" where
  "provincePartialMatch normalizedName provinces =
     js_find (\<lambda>p. js_includes (provinceNamePartial p) normalizedName
                 \<or> js_includes normalizedName (provinceNamePartial p)) provinces"

text \<open>
  \<open>provinces\<close> is the component's state (an array from its first render on), here a
  parameter. The guard returns \<^verbatim>\<open>null\<close>; \<^verbatim>\<open>if (match)\<close> lets an exact match
  through only when it is truthy; the last \<^verbatim>\<open>return match\<close> hands on what the second
  \<^verbatim>\<open>find\<close> gave, \<^verbatim>\<open>undefined\<close> when nothing matched.
\<close>

definition findMatchingProvince :: "string list \<Rightarrow> jsval \<Rightarrow> error + jsval" where
  "findMatchingProvince provinces name =
     (if \<not> truthy name then Inr Null
      else case name of
        Str nm \<Rightarrow>
          (let normalizedName = normalizeProvince nm;
               match = provinceExactMatch normalizedName provinces
           in if truthy match then Inr match
              else Inr (provincePartialMatch normalizedName provinces))
      | _ \<Rightarrow> Inl TypeError)"

subsection \<open>findMatchingCity\<close>

text \<open>
  \<^verbatim>\<open>name.toLowerCase()
     .replace(/^(kabupaten|kabupaten|kab|kota|city|daerah|khusus|district|regency|municipality)\s*/i, '')
     .replace(/\s+(kabupaten|kab|kota|city|daerah|khusus)\s*/i, ' ')
     .trim()\<close>
\<close>

definition normalizeCity :: "string \<Rightarrow> string" where
  "normalizeCity name =
     trim (replaceEmbedded cityNameEmbedded
             (replaceLeading cityNameLeading (toLowerCase name)))"

text \<open>\<^verbatim>\<open>c.toLowerCase().replace(/^kab\.?\s*/i, '').replace(/^kota\s*/i, '').trim()\<close>\<close>

definition cityNameOf :: "string \<Rightarrow> string" where
  "cityNameOf c = trim (replaceLeading [''kota''] (replaceKab (toLowerCase c)))"

text \<open>
  The list of cities may be missing: \<^verbatim>\<open>!citiesList?.length\<close> holds for \<^verbatim>\<open>null\<close>,
  \<^verbatim>\<open>undefined\<close> and the empty array.
\<close>

datatype jslist = NoList | Arr "string list"

fun hasLength :: "jslist \<Rightarrow> bool" where
  "hasLength NoList = False"
| "hasLength (Arr xs) = (xs \<noteq> [])"

definition cityExactMatch :: "string \<Rightarrow> string list \<Rightarrow> jsval" where
  "cityExactMatch normalizedName citiesList =
     js_find (\<lambda>c. cityNameOf c = normalizedName) citiesList"

definition cityPartialMatch :: "string \<Rightarrow> string list \<Rightarrow> jsval" where
  "cityPartialMatch normalizedName citiesList =
     js_find (\<lambda>c. js_includes (cityNameOf c) normalizedName
                 \<or> js_includes normalizedName (cityNameOf c)) citiesList"

definition findMatchingCity :: "jsval \<Rightarrow> jslist \<Rightarrow> error + jsval" where
  "findMatchingCity name citiesList =
     (if \<not> truthy name then Inr Null
      else if \<not> hasLength citiesList then Inr Null
      else case name of
        Str nm \<Rightarrow>
          (case citiesList of
             Arr cs \<Rightarrow>
               (let normalizedName = normalizeCity nm;
                    match = cityExactMatch normalizedName cs
                in if truthy match then Inr match
                   else Inr (cityPartialMatch normalizedName cs))
           | NoList \<Rightarrow> Inl TypeError)
      | _ \<Rightarrow> Inl TypeError)"

subsection \<open>The component's state, fetchCities, setLocation\<close>

record app_state =
  selectedProvince :: jsval
  selectedCity :: jsval
  locating :: bool
  locationError :: jsval

text \<open>
  What the one request to \<^verbatim>\<open>/kabkota\<close> gives: the \<^verbatim>\<open>fetch\<close> or the parsing throws,
  or the parsed body has a \<^verbatim>\<open>data\<close> member that is an array or is missing.
\<close>

datatype response = Failed | Data jslist

text \<open>
  \<^verbatim>\<open>fetchCities\<close>: the empty array for a falsy province (no request is made) and for a
  request that threw, \<^verbatim>\<open>data.data || []\<close> otherwise (an array, even an empty one, is
  truthy).
\<close>

definition fetchCities :: "response \<Rightarrow> jsval \<Rightarrow> string list" where
  "fetchCities kabkota province =
     (if \<not> truthy province then []
      else case kabkota of
        Failed \<Rightarrow> []
      | Data NoList \<Rightarrow> []
      | Data (Arr cs) \<Rightarrow> cs)"

text \<open>\<^verbatim>\<open>citiesList[0]\<close>: \<^verbatim>\<open>undefined\<close> on the empty array.\<close>

fun first :: "string list \<Rightarrow> jsval" where
  "first [] = Undefined"
| "first (c # cs) = Str c"

text \<open>
  \<^verbatim>\<open>setLocation\<close>: the new state, and the exception if \<^verbatim>\<open>findMatchingCity\<close> threw
  (the province is stored by then).
\<close>

definition setLocation ::
  "response \<Rightarrow> jsval \<Rightarrow> jsval \<Rightarrow> app_state \<Rightarrow> error option \<times> app_state" where
  "setLocation kabkota province cityName st =
     (let st1 = st\<lparr>selectedProvince := province\<rparr>;
          citiesList = fetchCities kabkota province
      in case findMatchingCity cityName (Arr citiesList) of
           Inl e \<Rightarrow> (Some e, st1)
         | Inr matched \<Rightarrow>
             (let finalCity = js_or matched (first citiesList);
                  st2 = (if truthy finalCity then st1\<lparr>selectedCity := finalCity\<rparr> else st1)
              in (None, st2\<lparr>locating := False\<rparr>)))"

definition setDefaultLocation :: "app_state \<Rightarrow> app_state" where
  "setDefaultLocation st = st\<lparr>locating := False\<rparr>"

subsection \<open>reverseGeocode, from the address on\<close>

text \<open>The fields of \<^verbatim>\<open>data.address\<close> that are read; a missing one is \<^verbatim>\<open>undefined\<close>.\<close>

record address =
  state :: jsval
  state_district :: jsval
  region :: jsval
  province :: jsval
  county :: jsval
  city :: jsval
  town :: jsval
  municipality :: jsval

definition provinceCandidates :: "address \<Rightarrow> jsval list" where
  "provinceCandidates a =
     filter truthy [state a, state_district a, region a, province a, county a]"

text \<open>
  The \<^verbatim>\<open>for\<close> loop over the candidates: \<^verbatim>\<open>foundProvince\<close> is assigned at every turn
  and the loop breaks at the first truthy result.
\<close>

fun provinceLoop :: "string list \<Rightarrow> jsval \<Rightarrow> jsval list \<Rightarrow> error + jsval" where
  "provinceLoop provinces foundProvince [] = Inr foundProvince"
| "provinceLoop provinces foundProvince (candidate # rest) =
     (case findMatchingProvince provinces candidate of
        Inl e \<Rightarrow> Inl e
      | Inr found \<Rightarrow>
          if truthy found then Inr found else provinceLoop provinces found rest)"

definition foundProvince :: "string list \<Rightarrow> address \<Rightarrow> error + jsval" where
  "foundProvince provinces a = provinceLoop provinces Null (provinceCandidates a)"

definition rawCityName :: "address \<Rightarrow> jsval" where
  "rawCityName a =
     (if truthy (county a) then county a
      else if truthy (city a) then city a
      else if truthy (town a) then town a
      else if truthy (municipality a) then municipality a
      else Null)"

definition cityType :: "address \<Rightarrow> jsval" where
  "cityType a =
     (if truthy (county a) then Str ''Kab.''
      else if truthy (city a) then Str ''Kota''
      else Null)"

text \<open>A value inside a template literal.\<close>

fun toString :: "jsval \<Rightarrow> string" where
  "toString (Str s) = s"
| "toString Null = ''null''"
| "toString Undefined = ''undefined''"

definition cityNameForMatching :: "address \<Rightarrow> jsval" where
  "cityNameForMatching a =
     (if truthy (cityType a)
      then Str (toString (cityType a) @ '' '' @ toString (rawCityName a))
      else rawCityName a)"

text \<open>
  \<^verbatim>\<open>reverseGeocode\<close> after the request to the geocoder: \<open>None\<close> is a request that threw
  or an answer without \<^verbatim>\<open>address\<close>. An exception inside the \<^verbatim>\<open>try\<close> ends in
  \<^verbatim>\<open>setDefaultLocation\<close>.
\<close>

definition reverseGeocode ::
  "string list \<Rightarrow> response \<Rightarrow> address option \<Rightarrow> app_state \<Rightarrow> app_state" where
  "reverseGeocode provinces kabkota answer st =
     (case answer of
        None \<Rightarrow> setDefaultLocation st
      | Some a \<Rightarrow>
          (case foundProvince provinces a of
             Inl e \<Rightarrow> setDefaultLocation st
           | Inr fp \<Rightarrow>
               if \<not> truthy fp then
                 setDefaultLocation
                   (st\<lparr>locationError := Str ''Provinsi tidak ditemukan dalam database''\<rparr>)
               else if \<not> truthy (rawCityName a) then setDefaultLocation st
               else
                 (case setLocation kabkota fp (cityNameForMatching a) st of
                    (Some e, st') \<Rightarrow> setDefaultLocation st'
                  | (None, st') \<Rightarrow> st')))"

text \<open>\<^verbatim>\<open>if (foundProvince)\<close>, \<^verbatim>\<open>matched || ...\<close>: a call that returned a truthy value.\<close>

fun resolves :: "error + jsval \<Rightarrow> bool" where
  "resolves (Inr v) = truthy v"
| "resolves (Inl e) = False"

section \<open>Properties\<close>

subsection \<open>Auxiliary facts\<close>

lemma js_find_cases:
  "js_find P xs = Undefined \<or> (\<exists>x. js_find P xs = Str x \<and> x \<in> set xs \<and> P x)"
  by (auto simp: js_find_def find_Some_iff split: option.splits)

lemma js_find_first:
  "\<forall>q\<in>set pre. \<not> P q \<Longrightarrow> P e \<Longrightarrow> js_find P (pre @ e # post) = Str e"
  by (induction pre) (auto simp: js_find_def)

lemma js_find_range: "js_find P xs \<in> {Null, Undefined} \<union> Str ` set xs"
  using js_find_cases [of P xs] by auto

lemma toLowerChar_idem: "toLowerChar (toLowerChar c) = toLowerChar c"
proof -
  let ?n = "of_char c :: nat"
  show ?thesis
  proof (cases "(65 \<le> ?n \<and> ?n \<le> 90) \<or> (192 \<le> ?n \<and> ?n \<le> 222 \<and> ?n \<noteq> 215)")
    case True
    then have "(?n + 32) mod 256 = ?n + 32" by auto
    then have "(of_char (char_of (?n + 32)) :: nat) = ?n + 32" by (simp add: of_char_of)
    with True show ?thesis by (auto simp: toLowerChar_def Let_def)
  next
    case False
    then show ?thesis by (auto simp: toLowerChar_def Let_def)
  qed
qed

lemma toLowerCase_idem: "toLowerCase (toLowerCase s) = toLowerCase s"
  by (simp add: toLowerCase_def toLowerChar_idem)

lemma dropWhile_idem: "dropWhile P (dropWhile P xs) = dropWhile P xs"
  by (induction xs) auto

lemma last_dropWhile: "dropWhile P xs \<noteq> [] \<Longrightarrow> last (dropWhile P xs) = last xs"
  by (induction xs) (auto split: if_splits)

lemma dropWhile_id: "xs = [] \<or> \<not> P (hd xs) \<Longrightarrow> dropWhile P xs = xs"
  by (cases xs) auto

text \<open>What \<open>trim\<close> returns starts with no white space, and \<open>trim\<close> leaves it as it is.\<close>

lemma trim_head: "dropWhile isWhiteSpace (trim s) = trim s"
proof -
  let ?a = "dropWhile isWhiteSpace s"
  let ?b = "dropWhile isWhiteSpace (rev ?a)"
  show ?thesis
  proof (cases "?b = []")
    case True
    then have "trim s = []" by (simp only: trim_def rev.simps)
    then show ?thesis by simp
  next
    case False
    have "?a \<noteq> []"
    proof
      assume "?a = []"
      then have "?b = []" by (simp only: rev.simps dropWhile.simps)
      with False show False by (simp only:)
    qed
    then have "\<not> isWhiteSpace (hd ?a)" by (simp add: hd_dropWhile)
    moreover have "last ?b = hd ?a"
      using False \<open>?a \<noteq> []\<close> by (simp add: last_dropWhile last_rev)
    ultimately have "\<not> isWhiteSpace (hd (rev ?b))" using False by (simp add: hd_rev)
    then show ?thesis by (simp add: trim_def dropWhile_id)
  qed
qed

lemma trim_idem: "trim (trim s) = trim s"
proof -
  have "trim (trim s) = rev (dropWhile isWhiteSpace (rev (trim s)))"
    by (simp add: trim_def[of "trim s"] trim_head)
  also have "\<dots> = trim s" by (simp add: trim_def dropWhile_idem)
  finally show ?thesis .
qed

text \<open>A resolver returns \<^verbatim>\<open>null\<close> or what one of its two searches returned.\<close>

lemma findMatchingProvince_cases:
  "findMatchingProvince provinces name = Inr Null
   \<or> (\<exists>P. findMatchingProvince provinces name = Inr (js_find P provinces))"
  by (cases name)
     (auto simp: findMatchingProvince_def Let_def provinceExactMatch_def
        provincePartialMatch_def)

lemma findMatchingCity_cases:
  "findMatchingCity name (Arr cs) = Inr Null
   \<or> (\<exists>P. findMatchingCity name (Arr cs) = Inr (js_find P cs))"
  by (cases name)
     (auto simp: findMatchingCity_def Let_def cityExactMatch_def cityPartialMatch_def)

lemma findMatchingProvince_total: "\<exists>v. findMatchingProvince provinces name = Inr v"
  by (cases name) (simp_all add: findMatchingProvince_def Let_def)

lemma findMatchingProvince_falsy: "\<not> truthy c \<Longrightarrow> findMatchingProvince provinces c = Inr Null"
  by (simp add: findMatchingProvince_def)

lemma findMatchingCity_range:
  "\<exists>v. findMatchingCity name (Arr cs) = Inr v \<and> v \<in> {Null, Undefined} \<union> Str ` set cs"
  using findMatchingCity_cases [of name cs] js_find_range [of _ cs] by auto

lemma js_find_member:
  "e \<in> set xs \<Longrightarrow> P e \<Longrightarrow> \<exists>x\<in>set xs. P x \<and> js_find P xs = Str x"
  by (induction xs) (auto simp: js_find_def)

lemma provinceNameExact_Nil: "provinceNameExact [] = []"
  by code_simp

lemma cityNameOf_Nil: "cityNameOf [] = []"
  by code_simp

text \<open>The two patterns for the entries of the province list strip the same.\<close>

lemma provinceNamePartial_eq: "provinceNamePartial p = provinceNameExact p"
  by (simp add: provinceNamePartial_def provinceNameExact_def replaceLeading_def
        provinceEntryLeadingPartial_def provinceEntryLeadingExact_def)

text \<open>The replacements put no character into a string but the space.\<close>

lemma lower_iff: "toLowerCase s = s \<longleftrightarrow> (\<forall>c\<in>set s. toLowerChar c = c)"
  unfolding toLowerCase_def by (induction s) auto

lemma matchToken_set: "matchToken ts s = Some r \<Longrightarrow> set r \<subseteq> set s"
  by (induction ts) (auto split: if_splits dest!: set_dropWhileD in_set_dropD)

lemma replaceLeading_set: "set (replaceLeading ts s) \<subseteq> set s"
  using matchToken_set [of ts s] by (auto simp: replaceLeading_def split: option.splits)

lemma replaceEmbedded_set: "set (replaceEmbedded ts s) \<subseteq> insert (CHR 0x20) (set s)"
proof (induction s)
  case Nil
  then show ?case by simp
next
  case (Cons c cs)
  show ?case
  proof (cases "matchToken ts (dropWhile isWhiteSpace cs)")
    case None
    with Cons show ?thesis by auto
  next
    case (Some r)
    then have "set r \<subseteq> set cs"
      using matchToken_set set_dropWhileD by fastforce
    with Some Cons show ?thesis by auto
  qed
qed

lemma trim_set: "set (trim s) \<subseteq> set s"
  by (auto simp: trim_def dest!: set_dropWhileD)

lemma space_lower: "toLowerChar (CHR 0x20) = CHR 0x20"
  by code_simp

lemma normal_form_lower:
  assumes "toLowerCase s = s"
  shows "toLowerCase (trim (replaceEmbedded es (replaceLeading ls s)))
           = trim (replaceEmbedded es (replaceLeading ls s))"
proof -
  have "set (trim (replaceEmbedded es (replaceLeading ls s))) \<subseteq> insert (CHR 0x20) (set s)"
    using trim_set replaceEmbedded_set replaceLeading_set by fast
  with assms space_lower show ?thesis unfolding lower_iff by auto
qed

subsection \<open>The guards of the resolvers\<close>

text \<open>
  C9. The resolvers never throw: on every name (a string, \<^verbatim>\<open>null\<close> or \<^verbatim>\<open>undefined\<close>)
  and every list (an array or none) they return a value, never the TypeError of a
  method call on a missing value. A missing or empty name gives \<^verbatim>\<open>null\<close>, and so does
  a missing or empty list of cities.
\<close>

theorem resolvers_never_throw:
  "(\<exists>v. findMatchingProvince provinces name = Inr v)
   \<and> (\<exists>v. findMatchingCity name citiesList = Inr v)
   \<and> findMatchingProvince provinces Null = Inr Null
   \<and> findMatchingProvince provinces Undefined = Inr Null
   \<and> findMatchingProvince provinces (Str []) = Inr Null
   \<and> findMatchingCity Null citiesList = Inr Null
   \<and> findMatchingCity Undefined citiesList = Inr Null
   \<and> findMatchingCity (Str []) citiesList = Inr Null
   \<and> findMatchingCity name NoList = Inr Null
   \<and> findMatchingCity name (Arr []) = Inr Null"
proof -
  have p: "\<exists>v. findMatchingProvince provinces name = Inr v"
    by (cases name) (simp_all add: findMatchingProvince_def Let_def)
  have c: "\<exists>v. findMatchingCity name citiesList = Inr v"
    by (cases name; cases citiesList) (simp_all add: findMatchingCity_def Let_def)
  show ?thesis
    using p c by (simp add: findMatchingProvince_def findMatchingCity_def)
qed

subsection \<open>What a resolver returns\<close>

text \<open>
  C3. Whatever the name and the list, \<^verbatim>\<open>findMatchingProvince\<close> returns an entry of the
  list it searched, as it stands in the list, or nothing: \<^verbatim>\<open>null\<close> from the guard,
  \<^verbatim>\<open>undefined\<close> from a search that found no entry. The same holds for
  \<^verbatim>\<open>findMatchingCity\<close> and the list of cities it is given.
\<close>

theorem resolvers_return_list_member:
  "findMatchingProvince provinces name \<in> Inr ` ({Null, Undefined} \<union> Str ` set provinces)
   \<and> findMatchingCity name (Arr cs) \<in> Inr ` ({Null, Undefined} \<union> Str ` set cs)
   \<and> findMatchingCity name NoList = Inr Null"
proof -
  have p: "findMatchingProvince provinces name
             \<in> Inr ` ({Null, Undefined} \<union> Str ` set provinces)"
    using findMatchingProvince_cases [of provinces name] js_find_range [of _ provinces]
    by (metis UnCI imageI insertI1)
  have c: "findMatchingCity name (Arr cs) \<in> Inr ` ({Null, Undefined} \<union> Str ` set cs)"
    using findMatchingCity_cases [of name cs] js_find_range [of _ cs]
    by (metis UnCI imageI insertI1)
  have n: "findMatchingCity name NoList = Inr Null"
    by (simp add: findMatchingCity_def)
  from p c n show ?thesis by (simp only: simp_thms)
qed

subsection \<open>Jakarta\<close>






subsection \<open>The leading pattern\<close>

text \<open>
  C8, as stated, fails: the leading pattern takes the "kota" of "Kotamobagu", and the
  normalized name is "mobagu".
\<close>

theorem kotamobagu_loses_its_head:
  "replaceLeading cityNameLeading (toLowerCase ''Kotamobagu'') = ''mobagu''
   \<and> normalizeCity ''Kotamobagu'' = ''mobagu''"
  by code_simp

text \<open>The head pattern takes the first token, in the order written, that is a prefix.\<close>

lemma matchToken_first:
  "matchToken ts s =
     (case find (\<lambda>t. prefix t s) ts of
        None \<Rightarrow> None
      | Some t \<Rightarrow> Some (dropWhile isWhiteSpace (drop (length t) s)))"
  by (induction ts) auto

text \<open>
  C8, amended. The leading pattern is anchored at the head of the string and at nothing
  else: \<^verbatim>\<open>\s*\<close> asks for no white space after the token. Under every list of tokens
  (the province rules and the city rules among them) the first token of the list that
  is a prefix of the string is removed together with the white space after it, whatever
  follows, a letter of the same word too; a string no token is a prefix of is left as it
  is. So every string that begins with a token of the list loses a token at its head;
  one that begins with "kota" (city rules) or "daerah" (province rules) loses just that.
\<close>

theorem leading_strip_is_a_prefix_strip:
  "replaceLeading ts s =
     (case find (\<lambda>t. prefix t s) ts of
        None \<Rightarrow> s
      | Some t \<Rightarrow> dropWhile isWhiteSpace (drop (length t) s))
   \<and> (t \<in> set ts \<longrightarrow>
        (\<exists>u\<in>set ts. prefix u (t @ rest)
           \<and> replaceLeading ts (t @ rest) = dropWhile isWhiteSpace (drop (length u) (t @ rest))))
   \<and> replaceLeading cityNameLeading (''kota'' @ rest) = dropWhile isWhiteSpace rest
   \<and> replaceLeading provinceNameLeading (''daerah'' @ rest) = dropWhile isWhiteSpace rest"
proof -
  have g: "replaceLeading ts s =
     (case find (\<lambda>t. prefix t s) ts of
        None \<Rightarrow> s
      | Some t \<Rightarrow> dropWhile isWhiteSpace (drop (length t) s))" for s
    by (simp add: replaceLeading_def matchToken_first split: option.splits)
  have e: "\<exists>u\<in>set ts. prefix u (t @ rest)
           \<and> replaceLeading ts (t @ rest) = dropWhile isWhiteSpace (drop (length u) (t @ rest))"
    if "t \<in> set ts"
  proof -
    from that have "find (\<lambda>u. prefix u (t @ rest)) ts \<noteq> None"
      by (auto simp: find_None_iff)
    then obtain u where u: "find (\<lambda>u. prefix u (t @ rest)) ts = Some u" by blast
    then have "u \<in> set ts" "prefix u (t @ rest)"
      by (auto simp: find_Some_iff)
    with u g [of "t @ rest"] show ?thesis by auto
  qed
  have k: "replaceLeading cityNameLeading (''kota'' @ rest) = dropWhile isWhiteSpace rest"
    by (simp add: replaceLeading_def cityNameLeading_def)
  have d: "replaceLeading provinceNameLeading (''daerah'' @ rest) = dropWhile isWhiteSpace rest"
    by (simp add: replaceLeading_def provinceNameLeading_def)
  from g [of s] e k d show ?thesis by blast
qed

text \<open>
  "kabanjahe" under the city rules loses "kab"; "provinsial" under the province rules
  loses "provinsi", which is written before "prov".
\<close>

theorem leading_strip_is_a_prefix_strip_witness:
  "''kab'' \<in> set cityNameLeading
   \<and> replaceLeading cityNameLeading ''kabanjahe'' = ''anjahe''
   \<and> ''prov'' \<in> set provinceNameLeading
   \<and> replaceLeading provinceNameLeading ''provinsial'' = ''al''"
proof -
  have h1: "''kab'' \<in> set cityNameLeading" by code_simp
  have h2: "''prov'' \<in> set provinceNameLeading" by code_simp
  have c1: "(case find (\<lambda>t. prefix t ''kabanjahe'') cityNameLeading of
        None \<Rightarrow> ''kabanjahe''
      | Some t \<Rightarrow> dropWhile isWhiteSpace (drop (length t) ''kabanjahe'')) = ''anjahe''"
    by code_simp
  have c2: "(case find (\<lambda>t. prefix t ''provinsial'') provinceNameLeading of
        None \<Rightarrow> ''provinsial''
      | Some t \<Rightarrow> dropWhile isWhiteSpace (drop (length t) ''provinsial'')) = ''al''"
    by code_simp
  from leading_strip_is_a_prefix_strip [of cityNameLeading "''kabanjahe''" "''kab''" "''anjahe''"] h1
  have r1: "replaceLeading cityNameLeading ''kabanjahe'' = ''anjahe''"
    by (simp only: c1)
  from leading_strip_is_a_prefix_strip
         [of provinceNameLeading "''provinsial''" "''prov''" "''insial''"] h2
  have r2: "replaceLeading provinceNameLeading ''provinsial'' = ''al''"
    by (simp only: c2)
  from h1 h2 r1 r2 show ?thesis by (simp only: simp_thms)
qed

subsection \<open>A county\<close>

text \<open>
  C5. For the address whose only field is county = "Sleman", the raw name is "Sleman",
  the type "Kab." and the name to match "Kab. Sleman". The name pattern writes
  \<^verbatim>\<open>kab\<close> where the pattern for the entries writes \<^verbatim>\<open>kab\.?\<close>, so the normalized name
  keeps the period: ". sleman". The entry "Kab. Sleman" is stripped to "sleman", the
  exact search finds nothing, and the entry is found by the partial search.
\<close>

theorem county_sleman_found_by_partial_match:
  "rawCityName \<lparr>state = Undefined, state_district = Undefined, region = Undefined,
       province = Undefined, county = Str ''Sleman'', city = Undefined, town = Undefined,
       municipality = Undefined\<rparr> = Str ''Sleman''
   \<and> cityType \<lparr>state = Undefined, state_district = Undefined, region = Undefined,
       province = Undefined, county = Str ''Sleman'', city = Undefined, town = Undefined,
       municipality = Undefined\<rparr> = Str ''Kab.''
   \<and> cityNameForMatching \<lparr>state = Undefined, state_district = Undefined,
       region = Undefined, province = Undefined, county = Str ''Sleman'', city = Undefined,
       town = Undefined, municipality = Undefined\<rparr> = Str ''Kab. Sleman''
   \<and> normalizeCity ''Kab. Sleman'' = ''. sleman''
   \<and> cityNameOf ''Kab. Sleman'' = ''sleman''
   \<and> cityExactMatch (normalizeCity ''Kab. Sleman'') [''Kab. Sleman'', ''Kota Yogyakarta'']
       = Undefined
   \<and> cityPartialMatch (normalizeCity ''Kab. Sleman'') [''Kab. Sleman'', ''Kota Yogyakarta'']
       = Str ''Kab. Sleman''
   \<and> findMatchingCity (Str ''Kab. Sleman'') (Arr [''Kab. Sleman'', ''Kota Yogyakarta''])
       = Inr (Str ''Kab. Sleman'')"
  by code_simp

text \<open>
  With the exact search out of reach, the county "Bandung Barat" is resolved to the
  entry "Kab. Bandung" that stands before "Kab. Bandung Barat".
\<close>

lemma county_bandung_barat:
  "findMatchingCity (Str ''Kab. Bandung Barat'') (Arr [''Kab. Bandung'', ''Kab. Bandung Barat''])
     = Inr (Str ''Kab. Bandung'')"
  by code_simp

subsection \<open>Resolving an entry's own stripped name\<close>

text \<open>
  C1, as stated, fails. "Kab. Bogor" and "Kota Bogor" are both stripped to "bogor",
  and the stripped name of "Kota Bogor" resolves to "Kab. Bogor", which stands first.
  The stripped name of "Daerah Istimewa Yogyakarta" is "istimewa yogyakarta", which the
  name pattern strips once more, and it resolves to the entry "Yogyakarta". The
  stripped name of "Kota" is empty and resolves to \<^verbatim>\<open>null\<close>.
\<close>

theorem round_trip_fails:
  "findMatchingCity (Str (cityNameOf ''Kota Bogor'')) (Arr [''Kab. Bogor'', ''Kota Bogor''])
     = Inr (Str ''Kab. Bogor'')
   \<and> findMatchingProvince [''Yogyakarta'', ''Daerah Istimewa Yogyakarta'']
       (Str (provinceNameExact ''Daerah Istimewa Yogyakarta'')) = Inr (Str ''Yogyakarta'')
   \<and> findMatchingCity (Str (cityNameOf ''Kota'')) (Arr [''Kota'']) = Inr Null"
  by code_simp

text \<open>
  C1, amended. Let an entry of a list of provinces or of cities have a stripped,
  lower-case name that is not empty, that the normalization of names leaves as it is,
  and that no entry before it in the list shares. Then resolving that name against the
  list returns the entry.
\<close>

theorem round_trip_first_entry:
  "(provinces = pre @ e # post
      \<and> provinceNameExact e \<noteq> []
      \<and> normalizeProvince (provinceNameExact e) = provinceNameExact e
      \<and> (\<forall>q\<in>set pre. provinceNameExact q \<noteq> provinceNameExact e)
      \<longrightarrow> findMatchingProvince provinces (Str (provinceNameExact e)) = Inr (Str e))
   \<and> (citiesList = pre @ e # post
      \<and> cityNameOf e \<noteq> []
      \<and> normalizeCity (cityNameOf e) = cityNameOf e
      \<and> (\<forall>q\<in>set pre. cityNameOf q \<noteq> cityNameOf e)
      \<longrightarrow> findMatchingCity (Str (cityNameOf e)) (Arr citiesList) = Inr (Str e))"
proof (intro conjI impI)
  assume h: "provinces = pre @ e # post
      \<and> provinceNameExact e \<noteq> []
      \<and> normalizeProvince (provinceNameExact e) = provinceNameExact e
      \<and> (\<forall>q\<in>set pre. provinceNameExact q \<noteq> provinceNameExact e)"
  then have "e \<noteq> []" using provinceNameExact_Nil by auto
  moreover from h have "provinceExactMatch (provinceNameExact e) provinces = Str e"
    by (simp add: provinceExactMatch_def js_find_first)
  ultimately show "findMatchingProvince provinces (Str (provinceNameExact e)) = Inr (Str e)"
    using h by (simp add: findMatchingProvince_def Let_def)
next
  assume h: "citiesList = pre @ e # post
      \<and> cityNameOf e \<noteq> []
      \<and> normalizeCity (cityNameOf e) = cityNameOf e
      \<and> (\<forall>q\<in>set pre. cityNameOf q \<noteq> cityNameOf e)"
  then have "e \<noteq> []" using cityNameOf_Nil by auto
  moreover from h have "cityExactMatch (cityNameOf e) citiesList = Str e"
    by (simp add: cityExactMatch_def js_find_first)
  ultimately show "findMatchingCity (Str (cityNameOf e)) (Arr citiesList) = Inr (Str e)"
    using h by (simp add: findMatchingCity_def Let_def)
qed

text \<open>
  "D.I. Yogyakarta" behind "Jawa Tengah", and "Kab. Bogor" behind "Kab. Bandung" and
  before "Kota Bogor".
\<close>

theorem round_trip_first_entry_witness:
  "findMatchingProvince [''Jawa Tengah'', ''D.I. Yogyakarta'', ''Bali''] (Str ''yogyakarta'')
     = Inr (Str ''D.I. Yogyakarta'')
   \<and> findMatchingCity (Str ''bogor'') (Arr [''Kab. Bandung'', ''Kab. Bogor'', ''Kota Bogor''])
     = Inr (Str ''Kab. Bogor'')"
proof -
  have p: "provinceNameExact ''D.I. Yogyakarta'' = ''yogyakarta''" by code_simp
  have c: "cityNameOf ''Kab. Bogor'' = ''bogor''" by code_simp
  have hp: "[''Jawa Tengah'', ''D.I. Yogyakarta'', ''Bali'']
        = [''Jawa Tengah''] @ ''D.I. Yogyakarta'' # [''Bali'']
      \<and> provinceNameExact ''D.I. Yogyakarta'' \<noteq> []
      \<and> normalizeProvince (provinceNameExact ''D.I. Yogyakarta'')
          = provinceNameExact ''D.I. Yogyakarta''
      \<and> (\<forall>q\<in>set [''Jawa Tengah'']. provinceNameExact q \<noteq> provinceNameExact ''D.I. Yogyakarta'')"
    by code_simp
  have hc: "[''Kab. Bandung'', ''Kab. Bogor'', ''Kota Bogor'']
        = [''Kab. Bandung''] @ ''Kab. Bogor'' # [''Kota Bogor'']
      \<and> cityNameOf ''Kab. Bogor'' \<noteq> []
      \<and> normalizeCity (cityNameOf ''Kab. Bogor'') = cityNameOf ''Kab. Bogor''
      \<and> (\<forall>q\<in>set [''Kab. Bandung'']. cityNameOf q \<noteq> cityNameOf ''Kab. Bogor'')"
    by code_simp
  from round_trip_first_entry
    [of "[''Jawa Tengah'', ''D.I. Yogyakarta'', ''Bali'']" "[''Jawa Tengah'']"
        "''D.I. Yogyakarta''" "[''Bali'']" "[]"] hp
  have r1: "findMatchingProvince [''Jawa Tengah'', ''D.I. Yogyakarta'', ''Bali'']
              (Str (provinceNameExact ''D.I. Yogyakarta'')) = Inr (Str ''D.I. Yogyakarta'')"
    by blast
  from round_trip_first_entry
    [of "[]" "[''Kab. Bandung'']" "''Kab. Bogor''" "[''Kota Bogor'']"
        "[''Kab. Bandung'', ''Kab. Bogor'', ''Kota Bogor'']"] hc
  have r2: "findMatchingCity (Str (cityNameOf ''Kab. Bogor''))
              (Arr [''Kab. Bandung'', ''Kab. Bogor'', ''Kota Bogor'']) = Inr (Str ''Kab. Bogor'')"
    by blast
  from r1 r2 show ?thesis by (simp only: p c simp_thms)
qed

subsection \<open>Normalizing twice\<close>

text \<open>
  C2, as stated, fails. "Daerah Khusus Ibukota Jakarta" becomes
  "khusus ibukota jakarta" and that becomes "ibukota jakarta"; "Kota Kotamobagu"
  becomes "kotamobagu" and that becomes "mobagu".
\<close>

theorem normalizers_not_idempotent:
  "normalizeProvince (normalizeProvince ''Daerah Khusus Ibukota Jakarta'')
     \<noteq> normalizeProvince ''Daerah Khusus Ibukota Jakarta''
   \<and> normalizeCity (normalizeCity ''Kota Kotamobagu'') \<noteq> normalizeCity ''Kota Kotamobagu''"
  by code_simp

text \<open>
  C2, amended. What a normalization returns is lower-case and trimmed. Normalizing it
  again returns it unchanged whenever neither of the two patterns of that normalization
  matches in it again, that is whenever both replacements leave it as it is.
\<close>

theorem normalize_idempotent_on_settled_names:
  "toLowerCase (normalizeProvince x) = normalizeProvince x
   \<and> trim (normalizeProvince x) = normalizeProvince x
   \<and> toLowerCase (normalizeCity x) = normalizeCity x
   \<and> trim (normalizeCity x) = normalizeCity x
   \<and> (replaceLeading provinceNameLeading (normalizeProvince x) = normalizeProvince x
        \<and> replaceEmbedded provinceNameEmbedded (normalizeProvince x) = normalizeProvince x
      \<longrightarrow> normalizeProvince (normalizeProvince x) = normalizeProvince x)
   \<and> (replaceLeading cityNameLeading (normalizeCity x) = normalizeCity x
        \<and> replaceEmbedded cityNameEmbedded (normalizeCity x) = normalizeCity x
      \<longrightarrow> normalizeCity (normalizeCity x) = normalizeCity x)"
proof -
  have lp: "toLowerCase (normalizeProvince x) = normalizeProvince x"
    unfolding normalizeProvince_def by (rule normal_form_lower) (rule toLowerCase_idem)
  have tp: "trim (normalizeProvince x) = normalizeProvince x"
    unfolding normalizeProvince_def by (rule trim_idem)
  have lc: "toLowerCase (normalizeCity x) = normalizeCity x"
    unfolding normalizeCity_def by (rule normal_form_lower) (rule toLowerCase_idem)
  have tc: "trim (normalizeCity x) = normalizeCity x"
    unfolding normalizeCity_def by (rule trim_idem)
  have ip: "normalizeProvince (normalizeProvince x) = normalizeProvince x"
    if "replaceLeading provinceNameLeading (normalizeProvince x) = normalizeProvince x
        \<and> replaceEmbedded provinceNameEmbedded (normalizeProvince x) = normalizeProvince x"
    using that lp tp by (simp add: normalizeProvince_def[of "normalizeProvince x"])
  have ic: "normalizeCity (normalizeCity x) = normalizeCity x"
    if "replaceLeading cityNameLeading (normalizeCity x) = normalizeCity x
        \<and> replaceEmbedded cityNameEmbedded (normalizeCity x) = normalizeCity x"
    using that lc tc by (simp add: normalizeCity_def[of "normalizeCity x"])
  from lp tp lc tc ip ic show ?thesis by blast
qed

text \<open>"Provinsi Jawa Tengah" under the province rules, "Kabupaten Sleman" under the city rules.\<close>

theorem normalize_idempotent_on_settled_names_witness:
  "normalizeProvince (normalizeProvince ''Provinsi Jawa Tengah'') = normalizeProvince ''Provinsi Jawa Tengah''
   \<and> normalizeCity (normalizeCity ''Kabupaten Sleman'') = normalizeCity ''Kabupaten Sleman''"
proof -
  have hp: "replaceLeading provinceNameLeading (normalizeProvince ''Provinsi Jawa Tengah'')
              = normalizeProvince ''Provinsi Jawa Tengah''
        \<and> replaceEmbedded provinceNameEmbedded (normalizeProvince ''Provinsi Jawa Tengah'')
              = normalizeProvince ''Provinsi Jawa Tengah''"
    by code_simp
  have hc: "replaceLeading cityNameLeading (normalizeCity ''Kabupaten Sleman'')
              = normalizeCity ''Kabupaten Sleman''
        \<and> replaceEmbedded cityNameEmbedded (normalizeCity ''Kabupaten Sleman'')
              = normalizeCity ''Kabupaten Sleman''"
    by code_simp
  from normalize_idempotent_on_settled_names [of "''Provinsi Jawa Tengah''"] hp
       normalize_idempotent_on_settled_names [of "''Kabupaten Sleman''"] hc
  show ?thesis by blast
qed

subsection \<open>The candidates for the province\<close>

lemma provinceLoop_first:
  "\<forall>s\<in>set skipped. \<not> resolves (findMatchingProvince provinces s) \<Longrightarrow>
   resolves (findMatchingProvince provinces c) \<Longrightarrow>
   provinceLoop provinces f0 (skipped @ c # rest) = findMatchingProvince provinces c"
proof (induction skipped arbitrary: f0)
  case Nil
  then show ?case by (cases "findMatchingProvince provinces c") auto
next
  case (Cons s skipped)
  obtain v where "findMatchingProvince provinces s = Inr v"
    using findMatchingProvince_total by blast
  with Cons show ?case by auto
qed

lemma provinceNameExact_jawa_tengah: "provinceNameExact ''Jawa Tengah'' = ''jawa tengah''"
  by code_simp

lemma normalizeProvince_jawa_tengah: "normalizeProvince ''Jawa Tengah'' = ''jawa tengah''"
  by code_simp

lemma jawa_tengah_resolved:
  assumes "''Jawa Tengah'' \<in> set provinces"
  shows "\<exists>p\<in>set provinces. provinceNameExact p = ''jawa tengah''
           \<and> findMatchingProvince provinces (Str ''Jawa Tengah'') = Inr (Str p)"
proof -
  from js_find_member [OF assms, of "\<lambda>p. provinceNameExact p = ''jawa tengah''"]
  obtain p where p: "p \<in> set provinces" "provinceNameExact p = ''jawa tengah''"
    "js_find (\<lambda>p. provinceNameExact p = ''jawa tengah'') provinces = Str p"
    using provinceNameExact_jawa_tengah by auto
  from p(2) have "p \<noteq> []" using provinceNameExact_Nil by auto
  with p show ?thesis
    by (auto simp: findMatchingProvince_def Let_def normalizeProvince_jawa_tengah
          provinceExactMatch_def)
qed

lemma provinceLoop_none:
  "\<forall>s\<in>set cs. \<not> resolves (findMatchingProvince provinces s) \<Longrightarrow> \<not> truthy f0 \<Longrightarrow>
   \<not> resolves (provinceLoop provinces f0 cs)"
proof (induction cs arbitrary: f0)
  case Nil
  then show ?case by simp
next
  case (Cons s cs)
  obtain v where v: "findMatchingProvince provinces s = Inr v"
    using findMatchingProvince_total by blast
  with Cons.prems have "\<not> truthy v" by auto
  with Cons v show ?case by auto
qed

lemma resolves_truthy: "resolves (findMatchingProvince provinces c) \<Longrightarrow> truthy c"
  using findMatchingProvince_falsy [of c provinces] by (cases "truthy c") auto

lemma fields_first:
  assumes "[state a, state_district a, region a, province a, county a] = pre @ c # post"
    and "\<forall>s\<in>set pre. \<not> resolves (findMatchingProvince provinces s)"
    and "resolves (findMatchingProvince provinces c)"
  shows "foundProvince provinces a = findMatchingProvince provinces c"
proof -
  have "provinceCandidates a = filter truthy pre @ c # filter truthy post"
    using assms(1,3) resolves_truthy by (simp add: provinceCandidates_def)
  moreover have "\<forall>s\<in>set (filter truthy pre). \<not> resolves (findMatchingProvince provinces s)"
    using assms(2) by simp
  ultimately show ?thesis
    using assms(3) by (simp add: foundProvince_def provinceLoop_first)
qed

lemma fields_none:
  assumes "\<forall>s\<in>set [state a, state_district a, region a, province a, county a].
             \<not> resolves (findMatchingProvince provinces s)"
  shows "\<not> resolves (foundProvince provinces a)"
proof -
  have "\<forall>s\<in>set (provinceCandidates a). \<not> resolves (findMatchingProvince provinces s)"
    using assms unfolding provinceCandidates_def by (metis filter_is_subset subsetD)
  then show ?thesis by (simp add: foundProvince_def provinceLoop_none)
qed

text \<open>
  C7. The candidates are the fields state, state district, region, province, county,
  in that order, and they are tried in that order: when the fields before one of them
  do not resolve (a falsy one never does) and that one resolves, its result is the
  province found; when none of the five resolves, no province is found. The same holds
  on the filtered list of candidates. A falsy candidate (an empty string, \<^verbatim>\<open>null\<close>,
  \<^verbatim>\<open>undefined\<close>) is not in the list of candidates, and the resolver answers
  \<^verbatim>\<open>null\<close> to it. For the address with the state "" and the state district
  "Jawa Tengah" the first candidate is "Jawa Tengah", and with "Jawa Tengah" in the list
  of provinces the province found is an entry of that list whose stripped name is
  "jawa tengah".
\<close>

theorem province_candidates_in_order:
  "([state a, state_district a, region a, province a, county a] = pre @ c # post
      \<and> (\<forall>s\<in>set pre. \<not> resolves (findMatchingProvince provinces s))
      \<and> resolves (findMatchingProvince provinces c)
      \<longrightarrow> foundProvince provinces a = findMatchingProvince provinces c)
   \<and> ((\<forall>s\<in>set [state a, state_district a, region a, province a, county a].
          \<not> resolves (findMatchingProvince provinces s))
      \<longrightarrow> \<not> resolves (foundProvince provinces a))
   \<and> (provinceCandidates a = skipped @ c # rest
      \<and> (\<forall>s\<in>set skipped. \<not> resolves (findMatchingProvince provinces s))
      \<and> resolves (findMatchingProvince provinces c)
      \<longrightarrow> foundProvince provinces a = findMatchingProvince provinces c)
   \<and> (\<not> truthy c \<longrightarrow>
        c \<notin> set (provinceCandidates a) \<and> findMatchingProvince provinces c = Inr Null)
   \<and> (state a = Str [] \<and> state_district a = Str ''Jawa Tengah''
        \<and> ''Jawa Tengah'' \<in> set provinces
      \<longrightarrow> hd (provinceCandidates a) = Str ''Jawa Tengah''
          \<and> (\<exists>p\<in>set provinces. provinceNameExact p = ''jawa tengah''
                \<and> foundProvince provinces a = Inr (Str p)))"
proof (intro conjI impI)
  assume "[state a, state_district a, region a, province a, county a] = pre @ c # post
      \<and> (\<forall>s\<in>set pre. \<not> resolves (findMatchingProvince provinces s))
      \<and> resolves (findMatchingProvince provinces c)"
  then show "foundProvince provinces a = findMatchingProvince provinces c"
    using fields_first by blast
next
  assume "\<forall>s\<in>set [state a, state_district a, region a, province a, county a].
          \<not> resolves (findMatchingProvince provinces s)"
  then show "\<not> resolves (foundProvince provinces a)" by (rule fields_none)
next
  assume "provinceCandidates a = skipped @ c # rest
      \<and> (\<forall>s\<in>set skipped. \<not> resolves (findMatchingProvince provinces s))
      \<and> resolves (findMatchingProvince provinces c)"
  then show "foundProvince provinces a = findMatchingProvince provinces c"
    by (simp add: foundProvince_def provinceLoop_first)
next
  assume "\<not> truthy c"
  then show "c \<notin> set (provinceCandidates a)" by (auto simp: provinceCandidates_def)
next
  assume "\<not> truthy c"
  then show "findMatchingProvince provinces c = Inr Null" by (rule findMatchingProvince_falsy)
next
  assume h: "state a = Str [] \<and> state_district a = Str ''Jawa Tengah''
        \<and> ''Jawa Tengah'' \<in> set provinces"
  then show "hd (provinceCandidates a) = Str ''Jawa Tengah''"
    by (simp add: provinceCandidates_def)
next
  assume h: "state a = Str [] \<and> state_district a = Str ''Jawa Tengah''
        \<and> ''Jawa Tengah'' \<in> set provinces"
  then obtain rest' where c: "provinceCandidates a = Str ''Jawa Tengah'' # rest'"
    by (simp add: provinceCandidates_def)
  from h jawa_tengah_resolved obtain p where p: "p \<in> set provinces"
    "provinceNameExact p = ''jawa tengah''"
    "findMatchingProvince provinces (Str ''Jawa Tengah'') = Inr (Str p)" by blast
  from p(2) have "p \<noteq> []" using provinceNameExact_Nil by auto
  with p c show "\<exists>p\<in>set provinces. provinceNameExact p = ''jawa tengah''
                \<and> foundProvince provinces a = Inr (Str p)"
    by (auto simp: foundProvince_def)
qed

text \<open>
  With the provinces "Bali", "Jawa Barat", "Jawa Tengah": the state "Atlantis" does not
  resolve, and the state district "Bali" is found, not the region "Jawa Tengah" behind
  it; the state "Bali" is found before the state district "Jawa Tengah"; the state
  "Atlantis" alone finds nothing; the empty state is passed over.
\<close>

theorem province_candidates_in_order_witness:
  "foundProvince [''Bali'', ''Jawa Barat'', ''Jawa Tengah'']
     \<lparr>state = Str ''Atlantis'', state_district = Str ''Bali'', region = Str ''Jawa Tengah'',
      province = Undefined, county = Undefined, city = Undefined, town = Undefined,
      municipality = Undefined\<rparr> = Inr (Str ''Bali'')
   \<and> foundProvince [''Bali'', ''Jawa Barat'', ''Jawa Tengah'']
     \<lparr>state = Str ''Bali'', state_district = Str ''Jawa Tengah'', region = Undefined,
      province = Undefined, county = Undefined, city = Undefined, town = Undefined,
      municipality = Undefined\<rparr> = Inr (Str ''Bali'')
   \<and> \<not> resolves (foundProvince [''Bali'', ''Jawa Barat'', ''Jawa Tengah'']
     \<lparr>state = Str ''Atlantis'', state_district = Undefined, region = Undefined,
      province = Undefined, county = Undefined, city = Undefined, town = Undefined,
      municipality = Undefined\<rparr>)
   \<and> findMatchingProvince [''Bali'', ''Jawa Barat'', ''Jawa Tengah''] (Str []) = Inr Null
   \<and> (\<exists>p\<in>set [''Bali'', ''Jawa Barat'', ''Jawa Tengah''].
         provinceNameExact p = ''jawa tengah''
         \<and> foundProvince [''Bali'', ''Jawa Barat'', ''Jawa Tengah'']
             \<lparr>state = Str [], state_district = Str ''Jawa Tengah'', region = Undefined,
              province = Undefined, county = Undefined, city = Undefined, town = Undefined,
              municipality = Undefined\<rparr> = Inr (Str p))"
proof -
  let ?P = "[''Bali'', ''Jawa Barat'', ''Jawa Tengah'']"
  let ?a = "\<lparr>state = Str ''Atlantis'', state_district = Str ''Bali'',
      region = Str ''Jawa Tengah'', province = Undefined, county = Undefined,
      city = Undefined, town = Undefined, municipality = Undefined\<rparr>"
  let ?b = "\<lparr>state = Str [], state_district = Str ''Jawa Tengah'', region = Undefined,
      province = Undefined, county = Undefined, city = Undefined, town = Undefined,
      municipality = Undefined\<rparr>"
  let ?c = "\<lparr>state = Str ''Bali'', state_district = Str ''Jawa Tengah'', region = Undefined,
      province = Undefined, county = Undefined, city = Undefined, town = Undefined,
      municipality = Undefined\<rparr>"
  let ?d = "\<lparr>state = Str ''Atlantis'', state_district = Undefined, region = Undefined,
      province = Undefined, county = Undefined, city = Undefined, town = Undefined,
      municipality = Undefined\<rparr>"
  have e: "findMatchingProvince ?P (Str ''Bali'') = Inr (Str ''Bali'')"
    by code_simp
  have ha: "[state ?a, state_district ?a, region ?a, province ?a, county ?a]
        = [Str ''Atlantis''] @ Str ''Bali'' # [Str ''Jawa Tengah'', Undefined, Undefined]
      \<and> (\<forall>s\<in>set [Str ''Atlantis'']. \<not> resolves (findMatchingProvince ?P s))
      \<and> resolves (findMatchingProvince ?P (Str ''Bali''))"
    by code_simp
  have hc: "[state ?c, state_district ?c, region ?c, province ?c, county ?c]
        = [] @ Str ''Bali'' # [Str ''Jawa Tengah'', Undefined, Undefined, Undefined]
      \<and> (\<forall>s\<in>set []. \<not> resolves (findMatchingProvince ?P s))
      \<and> resolves (findMatchingProvince ?P (Str ''Bali''))"
    by code_simp
  have hd: "\<forall>s\<in>set [state ?d, state_district ?d, region ?d, province ?d, county ?d].
              \<not> resolves (findMatchingProvince ?P s)"
    by code_simp
  have h2: "\<not> truthy (Str [])" by simp
  have h3: "state ?b = Str [] \<and> state_district ?b = Str ''Jawa Tengah''
      \<and> ''Jawa Tengah'' \<in> set ?P"
    by simp
  from province_candidates_in_order
         [of ?a "[Str ''Atlantis'']" "Str ''Bali''"
             "[Str ''Jawa Tengah'', Undefined, Undefined]" ?P] ha
  have "foundProvince ?P ?a = findMatchingProvince ?P (Str ''Bali'')" by blast
  with e have r1: "foundProvince ?P ?a = Inr (Str ''Bali'')" by (simp only:)
  from province_candidates_in_order
         [of ?c "[]" "Str ''Bali''" "[Str ''Jawa Tengah'', Undefined, Undefined, Undefined]" ?P]
       hc
  have "foundProvince ?P ?c = findMatchingProvince ?P (Str ''Bali'')" by blast
  with e have r4: "foundProvince ?P ?c = Inr (Str ''Bali'')" by (simp only:)
  from province_candidates_in_order [of ?d _ _ _ ?P] hd
  have r5: "\<not> resolves (foundProvince ?P ?d)" by blast
  from province_candidates_in_order [of ?b "[]" "Str []" "[]" ?P] h2 h3
  have r2: "findMatchingProvince ?P (Str []) = Inr Null"
    and r3: "\<exists>p\<in>set ?P. provinceNameExact p = ''jawa tengah''
                \<and> foundProvince ?P ?b = Inr (Str p)"
    by blast+
  from r1 r4 r5 r2 r3 show ?thesis by (simp only: simp_thms)
qed

subsection \<open>setLocation\<close>

text \<open>
  C10. When the request for the cities throws, or its answer has no list or an empty
  one, \<^verbatim>\<open>fetchCities\<close> gives the empty array and \<^verbatim>\<open>setLocation\<close> stores the province,
  clears \<^verbatim>\<open>locating\<close>, leaves the selected city and the location error as they
  were, and throws nothing.
\<close>

theorem empty_city_list_sets_no_city:
  "kabkota = Failed \<or> kabkota = Data NoList \<or> kabkota = Data (Arr []) \<Longrightarrow>
   fetchCities kabkota prov = []
   \<and> setLocation kabkota prov cname st =
        (None, st\<lparr>selectedProvince := prov, locating := False\<rparr>)
   \<and> selectedProvince (snd (setLocation kabkota prov cname st)) = prov
   \<and> selectedCity (snd (setLocation kabkota prov cname st)) = selectedCity st
   \<and> locationError (snd (setLocation kabkota prov cname st)) = locationError st
   \<and> \<not> locating (snd (setLocation kabkota prov cname st))"
proof -
  assume "kabkota = Failed \<or> kabkota = Data NoList \<or> kabkota = Data (Arr [])"
  then have f: "fetchCities kabkota prov = []"
    by (auto simp: fetchCities_def)
  have m: "findMatchingCity cname (Arr []) = Inr Null"
    by (simp add: findMatchingCity_def)
  have s: "setLocation kabkota prov cname st =
             (None, st\<lparr>selectedProvince := prov, locating := False\<rparr>)"
    by (simp add: setLocation_def f m js_or_def)
  from f s show ?thesis by simp
qed

text \<open>A request that threw.\<close>

theorem empty_city_list_sets_no_city_witness:
  "setLocation Failed (Str ''Bali'') (Str ''Kab. Badung'')
     \<lparr>selectedProvince = Null, selectedCity = Null, locating = True, locationError = Null\<rparr>
   = (None, \<lparr>selectedProvince = Str ''Bali'', selectedCity = Null, locating = False,
             locationError = Null\<rparr>)"
  using empty_city_list_sets_no_city [of Failed "Str ''Bali''" "Str ''Kab. Badung''"
      "\<lparr>selectedProvince = Null, selectedCity = Null, locating = True, locationError = Null\<rparr>"]
  by simp

text \<open>
  The city step when the first entry of the list is not the empty string: the city
  stored is the entry the resolver returned when it returned a truthy one, the first
  entry of the list otherwise.
\<close>

lemma city_from_list_first_entry:
  assumes "fetchCities kabkota prov = c0 # cs" and "c0 \<noteq> []"
  shows "fst (setLocation kabkota prov cname st) = None
   \<and> selectedCity (snd (setLocation kabkota prov cname st)) \<in> Str ` set (c0 # cs)
   \<and> (\<not> resolves (findMatchingCity cname (Arr (c0 # cs)))
        \<longrightarrow> selectedCity (snd (setLocation kabkota prov cname st)) = Str c0)
   \<and> (resolves (findMatchingCity cname (Arr (c0 # cs)))
        \<longrightarrow> Inr (selectedCity (snd (setLocation kabkota prov cname st)))
              = findMatchingCity cname (Arr (c0 # cs)))
   \<and> locationError (snd (setLocation kabkota prov cname st)) = locationError st
   \<and> \<not> locating (snd (setLocation kabkota prov cname st))"
proof -
  obtain v where v: "findMatchingCity cname (Arr (c0 # cs)) = Inr v"
    "v \<in> {Null, Undefined} \<union> Str ` set (c0 # cs)"
    using findMatchingCity_range by blast
  show ?thesis
  proof (cases "truthy v")
    case True
    with assms v show ?thesis by (auto simp: setLocation_def js_or_def)
  next
    case False
    with assms v show ?thesis by (auto simp: setLocation_def js_or_def)
  qed
qed

text \<open>
  The guard \<^verbatim>\<open>if (finalCity)\<close> stores no city when nothing matches and the first
  entry is the empty string, which is no name and which no list of names holds.
\<close>

lemma empty_first_entry_stores_no_city:
  "selectedCity (snd (setLocation (Data (Arr [[]])) (Str ''Bali'') (Str ''Sleman'')
     \<lparr>selectedProvince = Null, selectedCity = Null, locating = True,
      locationError = Null\<rparr>)) = Null"
  by code_simp

text \<open>
  C6. A reference list holds administrative names, and a name is not the empty string.
  For every name to match and every list of cities that is not empty, \<^verbatim>\<open>setLocation\<close>
  stores a city of that list: the entry the resolver returned when it found one, the
  first entry of the list when the resolver found nothing. It throws nothing, leaves
  the location error as it was and clears \<^verbatim>\<open>locating\<close>: a city that is not found
  is no failure.
\<close>

theorem city_always_from_list:
  "fetchCities kabkota prov = citiesList \<and> citiesList \<noteq> [] \<and> [] \<notin> set citiesList \<Longrightarrow>
   fst (setLocation kabkota prov cname st) = None
   \<and> selectedCity (snd (setLocation kabkota prov cname st)) \<in> Str ` set citiesList
   \<and> (\<not> resolves (findMatchingCity cname (Arr citiesList))
        \<longrightarrow> selectedCity (snd (setLocation kabkota prov cname st)) = Str (hd citiesList))
   \<and> (resolves (findMatchingCity cname (Arr citiesList))
        \<longrightarrow> Inr (selectedCity (snd (setLocation kabkota prov cname st)))
              = findMatchingCity cname (Arr citiesList))
   \<and> locationError (snd (setLocation kabkota prov cname st)) = locationError st
   \<and> \<not> locating (snd (setLocation kabkota prov cname st))"
proof -
  assume h: "fetchCities kabkota prov = citiesList \<and> citiesList \<noteq> []
               \<and> [] \<notin> set citiesList"
  then obtain c0 cs where l: "citiesList = c0 # cs" by (cases citiesList) auto
  with h have "fetchCities kabkota prov = c0 # cs" and "c0 \<noteq> []" by auto
  from city_from_list_first_entry [OF this, of cname st] l show ?thesis by simp
qed

text \<open>
  The town "Tanjung Priok" against the list that holds only "Kota Jakarta Utara": the
  resolver finds nothing and the first entry is stored.
\<close>

theorem city_always_from_list_witness:
  "selectedCity (snd (setLocation (Data (Arr [''Kota Jakarta Utara''])) (Str ''DKI Jakarta'')
     (Str ''Tanjung Priok'')
     \<lparr>selectedProvince = Null, selectedCity = Null, locating = True,
      locationError = Null\<rparr>)) = Str ''Kota Jakarta Utara''"
proof -
  have h: "fetchCities (Data (Arr [''Kota Jakarta Utara''])) (Str ''DKI Jakarta'')
             = [''Kota Jakarta Utara''] \<and> [''Kota Jakarta Utara''] \<noteq> []
           \<and> [] \<notin> set [''Kota Jakarta Utara'']"
    by code_simp
  have n: "\<not> resolves (findMatchingCity (Str ''Tanjung Priok'') (Arr [''Kota Jakarta Utara'']))"
    by code_simp
  have d: "hd [''Kota Jakarta Utara''] = ''Kota Jakarta Utara''" by simp
  from city_always_from_list [OF h, of "Str ''Tanjung Priok''"] n
  have "selectedCity (snd (setLocation (Data (Arr [''Kota Jakarta Utara'']))
          (Str ''DKI Jakarta'') (Str ''Tanjung Priok'')
          \<lparr>selectedProvince = Null, selectedCity = Null, locating = True,
           locationError = Null\<rparr>)) = Str (hd [''Kota Jakarta Utara''])"
    by blast
  then show ?thesis by (simp only: d)
qed

end
